theory Spec2Isabelle
  imports Main
begin

section \<open>Text analysis: \<open>analyze_word_frequency\<close>\<close>

text \<open>
  The service counts the whitespace-delimited tokens of an article and returns the \<open>n\<close>
  most frequent ones (\<open>assignment.py\<close>, lines 69 to 76):
  \<^verbatim>\<open>
  def analyze_word_frequency(article_text, n):
      words = article_text.split()
      word_frequency = Counter(words).most_common(n)
      return word_frequency
  \<close>
  A text is a \<open>string\<close>; each \<open>char\<close> stands for one code point below 256. Python
  integers are \<open>int\<close>; a count is a \<open>nat\<close>.
\<close>

subsection \<open>\<open>str.split()\<close>\<close>

text \<open>
  The code points below 256 that Python treats as whitespace: tab, line feed, vertical
  tab, form feed, carriage return, the four separators 0x1C to 0x1F, space, next line
  (0x85) and no-break space (0xA0).
\<close>

definition isspace :: "char \<Rightarrow> bool" where
  "isspace c \<longleftrightarrow> c \<in> {CHR 0x09, CHR 0x0A, CHR 0x0B, CHR 0x0C, CHR 0x0D,
                      CHR 0x1C, CHR 0x1D, CHR 0x1E, CHR 0x1F, CHR 0x20, CHR 0x85, CHR 0xA0}"

text \<open>
  \<open>split_from cur s\<close> scans \<open>s\<close> with the token \<open>cur\<close> under construction: a whitespace
  character closes a non-empty token and is dropped, any other character extends the
  token. Runs of whitespace therefore produce no empty token.
\<close>

fun split_from :: "string \<Rightarrow> string \<Rightarrow> string list" where
  "split_from cur [] = (if cur = [] then [] else [cur])"
| "split_from cur (c # cs) =
     (if isspace c then (if cur = [] then split_from [] cs else cur # split_from [] cs)
      else split_from (cur @ [c]) cs)"

definition split :: "string \<Rightarrow> string list" where
  "split article_text = split_from [] article_text"

subsection \<open>\<open>collections.Counter\<close>\<close>

text \<open>
  A \<open>Counter\<close> is a dictionary from token to count. Python dictionaries keep their keys
  in the order of first insertion, and \<open>most_common\<close> depends on that order, so the
  dictionary is an association list in insertion order. \<open>count_elem\<close> is the update
  \<^verbatim>\<open>self[elem] = self.get(elem, 0) + 1\<close>: an existing key keeps its place.
\<close>

type_synonym counter = "(string \<times> nat) list"

fun count_elem :: "string \<Rightarrow> counter \<Rightarrow> counter" where
  "count_elem elem [] = [(elem, 1)]"
| "count_elem elem ((k, c) # kcs) =
     (if k = elem then (k, c + 1) # kcs else (k, c) # count_elem elem kcs)"

definition Counter :: "string list \<Rightarrow> counter" where
  "Counter words = foldl (\<lambda>self elem. count_elem elem self) [] words"

text \<open>
  \<open>most_common(n)\<close> is \<^verbatim>\<open>heapq.nlargest(n, self.items(), key=itemgetter(1))\<close>, which the
  library documents as \<^verbatim>\<open>sorted(self.items(), key=itemgetter(1), reverse=True)[:n]\<close>.
  Python's sort is stable also with \<open>reverse=True\<close>: items with equal counts keep the
  order they have in the dictionary. A stable descending sort is the stable ascending
  sort by the negated count. For \<open>n \<le> 0\<close> the library returns the empty list, as
  \<open>take (nat n)\<close> does.
\<close>

definition sorted_by_count_desc :: "counter \<Rightarrow> counter" where
  "sorted_by_count_desc items = sort_key (\<lambda>item. - int (snd item)) items"

definition most_common :: "int \<Rightarrow> counter \<Rightarrow> counter" where
  "most_common n self = take (nat n) (sorted_by_count_desc self)"

definition analyze_word_frequency :: "string \<Rightarrow> int \<Rightarrow> (string \<times> nat) list" where
  "analyze_word_frequency article_text n =
     (let words = split article_text;
          word_frequency = most_common n (Counter words)
      in word_frequency)"

section \<open>Values and primitives of the host language\<close>

subsection \<open>Parsed JSON\<close>

text \<open>
  \<open>response.json()\<close> returns a Python value: \<open>None\<close>, a boolean, a number, a string, a
  list or a dictionary. A dictionary is an association list of its (distinct) keys in
  key order; \<open>JNull\<close> is \<open>None\<close>. A number is an \<open>int\<close>: the program applies only the truth test, \<open>in\<close> and
  subscripting to a parsed value, and a fractional number behaves there like a
  non-zero integer.
\<close>

datatype json =
    JNull
  | JBool bool
  | JInt int
  | JStr string
  | JArr "json list"
  | JObj "(string \<times> json) list"

datatype exn = KeyError | IndexError | TypeError | AttributeError | OtherError

text \<open>The truth test of \<^verbatim>\<open>not data\<close>.\<close>

fun truthy :: "json \<Rightarrow> bool" where
  "truthy JNull = False"
| "truthy (JBool b) = b"
| "truthy (JInt i) = (i \<noteq> 0)"
| "truthy (JStr s) = (s \<noteq> [])"
| "truthy (JArr xs) = (xs \<noteq> [])"
| "truthy (JObj kvs) = (kvs \<noteq> [])"

text \<open>\<open>has_substring s sub\<close>: the string \<open>sub\<close> occurs in \<open>s\<close> as a contiguous run.\<close>

fun has_substring :: "string \<Rightarrow> string \<Rightarrow> bool" where
  "has_substring [] sub = (sub = [])"
| "has_substring (c # cs) sub = (take (length sub) (c # cs) = sub \<or> has_substring cs sub)"

text \<open>
  \<^verbatim>\<open>key in container\<close> for a string key: key membership in a dictionary, element
  membership in a list, substring test in a string, \<open>TypeError\<close> for a value that is
  not a container.
\<close>

fun contains :: "json \<Rightarrow> string \<Rightarrow> exn + bool" where
  "contains (JObj kvs) key = Inr (key \<in> set (map fst kvs))"
| "contains (JArr xs) key = Inr (JStr key \<in> set xs)"
| "contains (JStr s) key = Inr (has_substring s key)"
| "contains _ key = Inl TypeError"

text \<open>
  \<^verbatim>\<open>container[key]\<close> for a string key: \<open>KeyError\<close> for a dictionary without the key,
  \<open>TypeError\<close> for every other value (lists and strings take integer indices only).
\<close>

fun getitem :: "json \<Rightarrow> string \<Rightarrow> exn + json" where
  "getitem (JObj kvs) key = (case map_of kvs key of None \<Rightarrow> Inl KeyError | Some v \<Rightarrow> Inr v)"
| "getitem _ key = Inl TypeError"

text \<open>
  \<^verbatim>\<open>list(pages.keys())[0]\<close>: \<open>AttributeError\<close> for a value without \<open>keys\<close>, \<open>IndexError\<close>
  for an empty dictionary.
\<close>

fun first_key :: "json \<Rightarrow> exn + string" where
  "first_key (JObj []) = Inl IndexError"
| "first_key (JObj ((k, v) # kvs)) = Inr k"
| "first_key _ = Inl AttributeError"

subsection \<open>\<open>int(n)\<close> on a string\<close>

text \<open>
  \<open>int\<close> skips whitespace at both ends, reads an optional sign and then decimal digits,
  where single underscores may separate digits. Anything else is a \<open>ValueError\<close>, here
  \<open>None\<close>. The whitespace of \<open>int\<close> is that of \<open>split\<close> without the separators 0x1C to
  0x1F. (The limit on the number of digits of recent interpreters is not modelled: it
  turns some very long literals into a \<open>ValueError\<close> as well.)
\<close>

definition int_space :: "char \<Rightarrow> bool" where
  "int_space c \<longleftrightarrow> c \<in> {CHR 0x09, CHR 0x0A, CHR 0x0B, CHR 0x0C, CHR 0x0D,
                        CHR 0x20, CHR 0x85, CHR 0xA0}"

definition isdigit :: "char \<Rightarrow> bool" where
  "isdigit c \<longleftrightarrow> c \<in> set ''0123456789''"

definition digit_value :: "char \<Rightarrow> nat" where
  "digit_value c = of_char c - 48"

fun digits_value :: "nat \<Rightarrow> bool \<Rightarrow> string \<Rightarrow> nat option" where
  "digits_value acc after_digit [] = (if after_digit then Some acc else None)"
| "digits_value acc after_digit (c # cs) =
     (if isdigit c then digits_value (10 * acc + digit_value c) True cs
      else if c = CHR ''_'' \<and> after_digit then digits_value acc False cs
      else None)"

definition strip :: "string \<Rightarrow> string" where
  "strip s = rev (dropWhile int_space (rev (dropWhile int_space s)))"

definition py_int :: "string \<Rightarrow> int option" where
  "py_int s =
     (case strip s of
        [] \<Rightarrow> None
      | c # cs \<Rightarrow>
          if c = CHR ''-'' then map_option (\<lambda>v. - int v) (digits_value 0 False cs)
          else if c = CHR ''+'' then map_option int (digits_value 0 False cs)
          else map_option int (digits_value 0 False (c # cs)))"

subsection \<open>\<open>str(count)\<close> and \<open>sep.join\<close>\<close>

definition digit_char :: "nat \<Rightarrow> char" where
  "digit_char d = ''0123456789'' ! d"

function str :: "nat \<Rightarrow> string" where
  "str n = (if n < 10 then [digit_char n] else str (n div 10) @ [digit_char (n mod 10)])"
  by pat_completeness auto
termination
  by (relation "measure (\<lambda>n. n)") auto

declare str.simps [simp del]

fun join :: "string \<Rightarrow> string list \<Rightarrow> string" where
  "join sep [] = []"
| "join sep [x] = x"
| "join sep (x # y # ys) = x @ sep @ join sep (y # ys)"

section \<open>The history store\<close>

text \<open>
  The table \<open>SearchHistory\<close> (lines 23 to 26) has an integer primary key and two string
  columns. The database is SQLite: a row inserted without a key gets the largest key
  in the table plus one (1 in an empty table), and a query without an order scans the
  table by ascending key. The column width 255 is not enforced by SQLite and is not
  modelled. The table is the list of its rows in the order they were committed.
\<close>

record SearchHistory =
  row_id :: nat
  row_topic :: string
  row_top_words :: string

definition next_id :: "SearchHistory list \<Rightarrow> nat" where
  "next_id rows = Suc (fold max (map row_id rows) 0)"

definition query_all :: "SearchHistory list \<Rightarrow> SearchHistory list" where
  "query_all rows = sort_key row_id rows"

text \<open>
  The state the handlers act on: the table, and the URLs requested from the upstream
  API so far (each \<open>requests.get\<close> appends one).
\<close>

record world =
  history :: "SearchHistory list"
  requested :: "string list"

definition top_words_str :: "(string \<times> nat) list \<Rightarrow> string" where
  "top_words_str word_frequency_result =
     join '', '' (map (\<lambda>(word, count). word @ '': '' @ str count) word_frequency_result)"

definition save_search_history :: "string \<Rightarrow> (string \<times> nat) list \<Rightarrow> world \<Rightarrow> world" where
  "save_search_history topic word_frequency_result w =
     (let search_entry = \<lparr>row_id = next_id (history w), row_topic = topic,
                          row_top_words = top_words_str word_frequency_result\<rparr>
      in w\<lparr>history := history w @ [search_entry]\<rparr>)"

section \<open>The upstream API: \<open>fetch_wikipedia_data\<close>\<close>

text \<open>
  One \<open>requests.get\<close> followed by \<open>raise_for_status\<close> and \<open>json\<close> either raises a
  \<open>RequestException\<close> (transport error, error status, undecodable body) or yields the
  parsed body. The upstream is a function from the URL to that result. The error log
  (\<open>app.logger.error\<close>) is not part of the state.
\<close>

datatype http_result = Request_failed | Body json

text \<open>
  Lines 29 to 54. A \<open>RequestException\<close> of either call is caught and the function
  returns \<open>None\<close>. The page id is read from the first body outside any check, so a
  \<open>KeyError\<close>, \<open>TypeError\<close>, \<open>AttributeError\<close> or \<open>IndexError\<close> there leaves the function.
\<close>

definition fetch_wikipedia_data ::
  "(string \<Rightarrow> http_result) \<Rightarrow> string \<Rightarrow> world \<Rightarrow> (exn + json) \<times> world" where
  "fetch_wikipedia_data wiki topic w =
     (let page_id_url =
            ''https://en.wikipedia.org/w/api.php?action=query&format=json&titles='' @ topic;
          w1 = w\<lparr>requested := requested w @ [page_id_url]\<rparr>
      in case wiki page_id_url of
           Request_failed \<Rightarrow> (Inr JNull, w1)
         | Body data \<Rightarrow>
             (case getitem data ''query'' of
                Inl e \<Rightarrow> (Inl e, w1)
              | Inr query \<Rightarrow>
                  (case getitem query ''pages'' of
                     Inl e \<Rightarrow> (Inl e, w1)
                   | Inr pages \<Rightarrow>
                       (case first_key pages of
                          Inl e \<Rightarrow> (Inl e, w1)
                        | Inr page_id \<Rightarrow>
                            (let full_content_url =
                                   ''https://en.wikipedia.org/w/api.php?action=query&format=json&pageids=''
                                     @ page_id @ ''&prop=extracts'';
                                 w2 = w1\<lparr>requested := requested w1 @ [full_content_url]\<rparr>
                             in (case wiki full_content_url of
                                   Request_failed \<Rightarrow> (Inr JNull, w2)
                                 | Body content \<Rightarrow> (Inr content, w2)))))))"

section \<open>The request handlers\<close>

text \<open>
  A request carries the query parameters \<open>topic\<close> and \<open>n\<close>, each absent or a string.
  A response is a status and a JSON body. The error bodies are, in source order:
  \<^item> \<open>Params_required\<close>: \<^verbatim>\<open>Invalid input. Both topic and n are required.\<close> (line 87)
  \<^item> \<open>Invalid_n\<close>: \<^verbatim>\<open>Invalid value for n. ...\<close> (line 96)
  \<^item> \<open>Article_not_found\<close>: \<^verbatim>\<open>Invalid topic. Wikipedia article not found.\<close> (line 103)
  \<^item> \<open>No_article_details\<close>: \<^verbatim>\<open>Failed to retrieve article details from Wikipedia.\<close> (line 108)
  \<^item> \<open>No_clean_text\<close>: \<^verbatim>\<open>Failed to retrieve clean article text from Wikipedia.\<close> (line 118)
\<close>

record request =
  arg_topic :: "string option"
  arg_n :: "string option"

datatype error = Params_required | Invalid_n | Article_not_found | No_article_details
  | No_clean_text

datatype body =
    Error error
  | Word_frequency "(string \<times> nat) list"
  | Search_history "(string \<times> string) list"

datatype response = Response (status: nat) (body: body)

text \<open>A handler returns a response or lets an exception escape.\<close>

datatype outcome = Raised exn | Returned response

text \<open>
  The source handler \<open>word_frequency\<close> is one function; the model names its stages
  \<open>check_params\<close> and \<open>clean_article_text\<close> and composes them below.

  Lines 82 to 96: both parameters must be present and non-empty, and \<open>n\<close> must parse to
  a positive integer. The \<open>ValueError\<close> of \<open>int\<close> and the one raised for \<open>n \<le> 0\<close> reach
  the same handler.
\<close>

definition check_params :: "request \<Rightarrow> response + (string \<times> int)" where
  "check_params req =
     (case (arg_topic req, arg_n req) of
        (Some topic, Some n) \<Rightarrow>
          if topic = [] \<or> n = [] then Inl (Response 400 (Error Params_required))
          else (case py_int n of
                  None \<Rightarrow> Inl (Response 400 (Error Invalid_n))
                | Some k \<Rightarrow>
                    if k \<le> 0 then Inl (Response 400 (Error Invalid_n)) else Inr (topic, k))
      | _ \<Rightarrow> Inl (Response 400 (Error Params_required)))"

text \<open>
  Lines 102 to 118 either raise, answer with an error, or go on with the cleaned text.
  \<open>get_text\<close> stands for \<^verbatim>\<open>BeautifulSoup(article_text, 'html.parser').get_text()\<close>, an
  external library: it maps the value under \<open>extract\<close> to the text without markup, or
  raises. The source evaluates \<^verbatim>\<open>data['query']['pages']\<close> again at each use; the
  subscripts have no effect, so the model binds each value once.
\<close>

datatype 'a step = Raise exn | Reply response | Continue 'a

definition attempt :: "exn + 'a \<Rightarrow> ('a \<Rightarrow> 'b step) \<Rightarrow> 'b step" where
  "attempt r k = (case r of Inl e \<Rightarrow> Raise e | Inr v \<Rightarrow> k v)"

definition clean_article_text :: "(json \<Rightarrow> exn + string) \<Rightarrow> json \<Rightarrow> string step" where
  "clean_article_text get_text data =
     (if \<not> truthy data then Reply (Response 404 (Error Article_not_found)) else
      attempt (contains data ''query'') (\<lambda>has_query.
      if \<not> has_query then Reply (Response 404 (Error Article_not_found)) else
      attempt (getitem data ''query'') (\<lambda>query.
      attempt (contains query ''pages'') (\<lambda>has_pages.
      if \<not> has_pages then Reply (Response 404 (Error Article_not_found)) else
      attempt (getitem query ''pages'') (\<lambda>pages.
      attempt (first_key pages) (\<lambda>page_id.
      attempt (getitem pages page_id) (\<lambda>page.
      attempt (contains page ''title'') (\<lambda>has_title.
      if \<not> has_title then Reply (Response 500 (Error No_article_details)) else
      attempt (getitem page ''extract'') (\<lambda>article_text.
      attempt (get_text article_text) (\<lambda>clean_text.
      if clean_text = [] then Reply (Response 500 (Error No_clean_text))
      else Continue clean_text))))))))))"

text \<open>The handler of \<open>/word_frequency\<close>, lines 80 to 127.\<close>

definition word_frequency ::
  "(json \<Rightarrow> exn + string) \<Rightarrow> (string \<Rightarrow> http_result) \<Rightarrow> request \<Rightarrow> world \<Rightarrow> outcome \<times> world"
  where
  "word_frequency get_text wiki req w =
     (case check_params req of
        Inl r \<Rightarrow> (Returned r, w)
      | Inr (topic, n) \<Rightarrow>
          (case fetch_wikipedia_data wiki topic w of
             (Inl e, w1) \<Rightarrow> (Raised e, w1)
           | (Inr data, w1) \<Rightarrow>
               (case clean_article_text get_text data of
                  Raise e \<Rightarrow> (Raised e, w1)
                | Reply r \<Rightarrow> (Returned r, w1)
                | Continue clean_text \<Rightarrow>
                    let word_frequency_result = analyze_word_frequency clean_text n;
                        w2 = save_search_history topic word_frequency_result w1
                    in (Returned (Response 200 (Word_frequency word_frequency_result)), w2))))"

text \<open>The handler of \<open>/search_history\<close>, lines 131 to 139.\<close>

definition search_history :: "world \<Rightarrow> outcome \<times> world" where
  "search_history w =
     (let searches = query_all (history w);
          search_history_data =
            map (\<lambda>entry. (row_topic entry, row_top_words entry)) searches
      in (Returned (Response 200 (Search_history search_history_data)), w))"

section \<open>Vocabulary of the properties\<close>

text \<open>
  \<open>first_seen words w\<close> is the position of the first occurrence of \<open>w\<close> in the token
  stream (the length of the stream when \<open>w\<close> does not occur).
\<close>

definition first_seen :: "string list \<Rightarrow> string \<Rightarrow> nat" where
  "first_seen words w = length (takeWhile (\<lambda>x. x \<noteq> w) words)"

text \<open>
  The order of the result: an item comes before another when its count is greater, or
  when the counts are equal and its token appears first in the stream.
\<close>

definition ranks_before :: "string list \<Rightarrow> string \<times> nat \<Rightarrow> string \<times> nat \<Rightarrow> bool" where
  "ranks_before words p q \<longleftrightarrow>
     snd q < snd p \<or> (snd p = snd q \<and> first_seen words (fst p) < first_seen words (fst q))"

text \<open>
  Only \<open>save_search_history\<close> writes to the table, so every table is the result of a
  sequence of saves on the empty table; \<open>commits\<close> runs such a sequence.
\<close>

definition commits :: "(string \<times> (string \<times> nat) list) list \<Rightarrow> world \<Rightarrow> world" where
  "commits saves w = foldl (\<lambda>w' (topic, result). save_search_history topic result w') w saves"

definition empty_world :: world where
  "empty_world = \<lparr>history = [], requested = []\<rparr>"

text \<open>
  The shape of a body of the upstream API: the object under \<open>query\<close> holds the object
  \<open>pages\<close>, which maps the page id to the page.
\<close>

definition api_response :: "string \<Rightarrow> json \<Rightarrow> json" where
  "api_response page_id page =
     JObj [(''batchcomplete'', JStr []), (''query'', JObj [(''pages'', JObj [(page_id, page)])])]"

text \<open>
  Inputs for the examples. \<open>plain_text\<close> is the markup remover on a string that holds no
  markup: the text is the string itself. \<open>cat_wiki\<close> answers the lookup of a title with
  the page stub and the request for the extract with the page and its text.
  \<open>blank_wiki\<close> serves a page whose extract is a single space, \<open>title_only_wiki\<close> a page
  without extract, \<open>down_wiki\<close> fails every request. \<open>missing_page_wiki\<close> answers as the
  upstream does for a title that has no page: the lookup yields the stub with id \<open>-1\<close>
  marked \<open>missing\<close>, and the request for the extract of page \<open>-1\<close> yields a stub with
  \<open>pageid\<close> and \<open>missing\<close> only.
\<close>

definition plain_text :: "json \<Rightarrow> exn + string" where
  "plain_text article_text = (case article_text of JStr s \<Rightarrow> Inr s | _ \<Rightarrow> Inl TypeError)"

definition is_lookup :: "string \<Rightarrow> bool" where
  "is_lookup url \<longleftrightarrow> has_substring url ''&titles=''"

definition cat_wiki :: "string \<Rightarrow> http_result" where
  "cat_wiki url =
     (if is_lookup url
      then Body (api_response ''6678''
             (JObj [(''pageid'', JInt 6678), (''ns'', JInt 0), (''title'', JStr ''Cat'')]))
      else Body (api_response ''6678''
             (JObj [(''pageid'', JInt 6678), (''ns'', JInt 0), (''title'', JStr ''Cat''),
                    (''extract'', JStr ''the cat sat on the mat the cat ran'')])))"

definition blank_wiki :: "string \<Rightarrow> http_result" where
  "blank_wiki url =
     Body (api_response ''7''
       (JObj [(''pageid'', JInt 7), (''ns'', JInt 0), (''title'', JStr ''Blank''),
              (''extract'', JStr '' '')]))"

definition title_only_wiki :: "string \<Rightarrow> http_result" where
  "title_only_wiki url =
     Body (api_response ''7''
       (JObj [(''pageid'', JInt 7), (''ns'', JInt 0), (''title'', JStr ''Cat'')]))"

definition missing_page_wiki :: "string \<Rightarrow> http_result" where
  "missing_page_wiki url =
     (if is_lookup url
      then Body (api_response ''-1''
             (JObj [(''ns'', JInt 0), (''title'', JStr ''Zzyzxq''), (''missing'', JStr [])]))
      else Body (api_response ''-1'' (JObj [(''pageid'', JInt (- 1)), (''missing'', JStr [])])))"

definition down_wiki :: "string \<Rightarrow> http_result" where
  "down_wiki url = Request_failed"

section \<open>Counting and ranking\<close>

subsection \<open>The counter\<close>

lemma keys_count_elem:
  "map fst (count_elem w d) = (if w \<in> fst ` set d then map fst d else map fst d @ [w])"
  by (induction w d rule: count_elem.induct) (force simp: image_iff)+

lemma map_of_count_elem:
  "map_of (count_elem w d) k =
     (if k = w then Some (case map_of d w of None \<Rightarrow> 1 | Some c \<Rightarrow> c + 1) else map_of d k)"
  by (induction d) auto

lemma Counter_snoc: "Counter (ws @ [w]) = count_elem w (Counter ws)"
  by (simp add: Counter_def)

lemma Counter_Nil: "Counter [] = []"
  by (simp add: Counter_def)

lemma keys_Counter_set: "fst ` set (Counter ws) = set ws"
proof (induction ws rule: rev_induct)
  case Nil
  show ?case by (simp add: Counter_Nil)
next
  case (snoc w ws)
  have "set (map fst (Counter (ws @ [w]))) = insert w (set ws)"
    unfolding Counter_snoc keys_count_elem using snoc by auto
  then show ?case by simp
qed

lemma keys_Counter_distinct: "distinct (map fst (Counter ws))"
proof (induction ws rule: rev_induct)
  case Nil
  show ?case by (simp add: Counter_Nil)
next
  case (snoc w ws)
  then show ?case by (simp add: Counter_snoc keys_count_elem)
qed

lemma map_of_Counter:
  "map_of (Counter ws) w = (if w \<in> set ws then Some (count_list ws w) else None)"
proof (induction ws rule: rev_induct)
  case Nil
  show ?case by (simp add: Counter_Nil)
next
  case (snoc x ws)
  then show ?case by (auto simp: Counter_snoc map_of_count_elem)
qed

lemma first_seen_less: "w \<in> set ws \<Longrightarrow> first_seen ws w < length ws"
proof -
  assume "w \<in> set ws"
  then have "takeWhile (\<lambda>x. x \<noteq> w) ws \<noteq> ws"
    by simp
  then have "length (takeWhile (\<lambda>x. x \<noteq> w) ws) \<noteq> length ws"
    by (metis takeWhile_eq_take take_all_iff order_refl)
  then show ?thesis
    unfolding first_seen_def using length_takeWhile_le [of "\<lambda>x. x \<noteq> w" ws] by linarith
qed

lemma first_seen_snoc_old: "k \<in> set ws \<Longrightarrow> first_seen (ws @ [w]) k = first_seen ws k"
  by (simp add: first_seen_def)

lemma first_seen_snoc_new: "w \<notin> set ws \<Longrightarrow> first_seen (ws @ [w]) w = length ws"
  unfolding first_seen_def by (subst takeWhile_append2) auto

lemma keys_Counter_order:
  "sorted_wrt (\<lambda>a b. first_seen ws a < first_seen ws b) (map fst (Counter ws))"
proof (induction ws rule: rev_induct)
  case Nil
  show ?case by (simp add: Counter_Nil)
next
  case (snoc w ws)
  let ?ks = "map fst (Counter ws)"
  have old: "sorted_wrt (\<lambda>a b. first_seen (ws @ [w]) a < first_seen (ws @ [w]) b) ?ks"
  proof (rule sorted_wrt_mono_rel [OF _ snoc.IH])
    fix a b
    assume "a \<in> set ?ks" "b \<in> set ?ks" "first_seen ws a < first_seen ws b"
    then show "first_seen (ws @ [w]) a < first_seen (ws @ [w]) b"
      by (simp add: keys_Counter_set first_seen_snoc_old)
  qed
  show ?case
  proof (cases "w \<in> set ws")
    case True
    then show ?thesis using old by (simp add: Counter_snoc keys_count_elem keys_Counter_set)
  next
    case False
    have "\<forall>k\<in>set ?ks. first_seen (ws @ [w]) k < first_seen (ws @ [w]) w"
      using False by (simp add: keys_Counter_set first_seen_snoc_old first_seen_snoc_new first_seen_less)
    then show ?thesis
      using old False
      by (simp add: Counter_snoc keys_count_elem keys_Counter_set sorted_wrt_append)
  qed
qed

subsection \<open>The stable sort orders by count, then by first appearance\<close>

lemma insort_key_lex:
  fixes f :: "'a \<Rightarrow> int" and h :: "'a \<Rightarrow> nat"
  assumes "sorted_wrt (\<lambda>p q. f p < f q \<or> (f p = f q \<and> h p < h q)) ys"
    and "\<forall>y\<in>set ys. h x < h y"
  shows "sorted_wrt (\<lambda>p q. f p < f q \<or> (f p = f q \<and> h p < h q)) (insort_key f x ys)"
  using assms
proof (induction ys)
  case Nil
  show ?case by simp
next
  case (Cons y ys)
  show ?case
  proof (cases "f x \<le> f y")
    case True
    have "\<forall>z\<in>set (y # ys). f x < f z \<or> (f x = f z \<and> h x < h z)"
      using True Cons.prems by fastforce
    then show ?thesis using True Cons.prems(1) by simp
  next
    case False
    then show ?thesis using Cons by (auto simp: set_insort_key)
  qed
qed

lemma sort_key_lex:
  fixes f :: "'a \<Rightarrow> int" and h :: "'a \<Rightarrow> nat"
  assumes "sorted_wrt (\<lambda>p q. h p < h q) xs"
  shows "sorted_wrt (\<lambda>p q. f p < f q \<or> (f p = f q \<and> h p < h q)) (sort_key f xs)"
  using assms
proof (induction xs)
  case Nil
  show ?case by simp
next
  case (Cons x xs)
  then show ?case by (simp add: insort_key_lex)
qed

lemma ranking_sorted: "sorted_wrt (ranks_before ws) (sorted_by_count_desc (Counter ws))"
proof -
  have "sorted_wrt (\<lambda>p q. first_seen ws (fst p) < first_seen ws (fst q)) (Counter ws)"
    using keys_Counter_order [of ws] by (simp add: sorted_wrt_map)
  then have "sorted_wrt (\<lambda>p q. - int (snd p) < - int (snd q) \<or>
        (- int (snd p) = - int (snd q) \<and> first_seen ws (fst p) < first_seen ws (fst q)))
      (sort_key (\<lambda>item. - int (snd item)) (Counter ws))"
    by (rule sort_key_lex)
  then show ?thesis
    unfolding sorted_by_count_desc_def
    by (rule sorted_wrt_mono_rel [rotated]) (auto simp: ranks_before_def)
qed

lemma Counter_item: "(w, c) \<in> set (Counter ws) \<longleftrightarrow> w \<in> set ws \<and> c = count_list ws w"
proof -
  have "(w, c) \<in> set (Counter ws) \<longleftrightarrow> map_of (Counter ws) w = Some c"
    using keys_Counter_distinct [of ws] by simp
  then show ?thesis by (auto simp: map_of_Counter)
qed

lemma length_Counter: "length (Counter ws) = card (set ws)"
  using distinct_card [OF keys_Counter_distinct [of ws]] by (simp add: keys_Counter_set)

lemma set_ranking: "set (sorted_by_count_desc d) = set d"
  by (simp add: sorted_by_count_desc_def)

lemma length_ranking: "length (sorted_by_count_desc d) = length d"
  by (simp add: sorted_by_count_desc_def)

lemma keys_ranking_distinct: "distinct (map fst (sorted_by_count_desc (Counter ws)))"
  using keys_Counter_distinct [of ws] by (simp add: sorted_by_count_desc_def distinct_map)

lemma analyze_word_frequency_unfold:
  "analyze_word_frequency article_text n =
     take (nat n) (sorted_by_count_desc (Counter (split article_text)))"
  by (simp add: analyze_word_frequency_def most_common_def)

subsection \<open>The result of \<open>analyze_word_frequency\<close>\<close>

text \<open>
  Claim C1. For every text and every \<open>n\<close> (in particular every positive \<open>n\<close>),
  \<open>analyze_word_frequency\<close> returns the \<open>n\<close> highest-count whitespace-delimited tokens,
  sorted by descending count, and tokens with equal counts follow the order of their
  first appearance in the token stream. In detail: the result has \<open>min n d\<close> items for
  \<open>d\<close> distinct tokens; no token occurs twice; every item is a token of the text with
  its number of occurrences; each item ranks before every later item; and every token
  left out ranks after every item returned.
\<close>

theorem analyze_word_frequency_ranking:
  "length (analyze_word_frequency article_text n) = min (nat n) (card (set (split article_text)))
   \<and> distinct (map fst (analyze_word_frequency article_text n))
   \<and> (\<forall>(w, c) \<in> set (analyze_word_frequency article_text n).
         w \<in> set (split article_text) \<and> c = count_list (split article_text) w)
   \<and> sorted_wrt (ranks_before (split article_text)) (analyze_word_frequency article_text n)
   \<and> (\<forall>w \<in> set (split article_text).
         w \<notin> fst ` set (analyze_word_frequency article_text n) \<longrightarrow>
         (\<forall>p \<in> set (analyze_word_frequency article_text n).
            ranks_before (split article_text) p (w, count_list (split article_text) w)))"
proof -
  define ws where "ws = split article_text"
  define ranking where "ranking = sorted_by_count_desc (Counter ws)"
  define result where "result = take (nat n) ranking"
  have result: "analyze_word_frequency article_text n = result"
    by (simp add: analyze_word_frequency_unfold result_def ranking_def ws_def)
  have sorted: "sorted_wrt (ranks_before ws) ranking"
    unfolding ranking_def by (rule ranking_sorted)
  have items: "set ranking = set (Counter ws)"
    unfolding ranking_def by (rule set_ranking)
  have split: "ranking = result @ drop (nat n) ranking"
    by (simp add: result_def)
  have len: "length result = min (nat n) (card (set ws))"
    by (simp add: result_def ranking_def length_ranking length_Counter min.commute)
  have "distinct (map fst ranking)"
    unfolding ranking_def by (rule keys_ranking_distinct)
  then have dist: "distinct (map fst result)"
    unfolding result_def by (simp add: take_map [symmetric])
  have counts: "\<forall>(w, c) \<in> set result. w \<in> set ws \<and> c = count_list ws w"
  proof (clarify)
    fix w c
    assume "(w, c) \<in> set result"
    then have "(w, c) \<in> set ranking"
      unfolding result_def by (rule in_set_takeD)
    then show "w \<in> set ws \<and> c = count_list ws w"
      by (simp add: items Counter_item)
  qed
  have order: "sorted_wrt (ranks_before ws) result"
    using sorted split by (metis sorted_wrt_append)
  have rest: "\<forall>w \<in> set ws. w \<notin> fst ` set result \<longrightarrow>
      (\<forall>p \<in> set result. ranks_before ws p (w, count_list ws w))"
  proof (intro ballI impI)
    fix w p
    assume w: "w \<in> set ws" and out: "w \<notin> fst ` set result" and p: "p \<in> set result"
    from w have "(w, count_list ws w) \<in> set ranking"
      by (simp add: items Counter_item)
    then have "(w, count_list ws w) \<in> set result \<union> set (drop (nat n) ranking)"
      using split by (metis set_append)
    moreover have "(w, count_list ws w) \<notin> set result"
      using out by force
    ultimately have "(w, count_list ws w) \<in> set (drop (nat n) ranking)"
      by simp
    then show "ranks_before ws p (w, count_list ws w)"
      using sorted split p by (metis sorted_wrt_append)
  qed
  show ?thesis
    unfolding result ws_def [symmetric]
    using len dist counts order rest by blast
qed

text \<open>
  The scenario of the specification: in \<open>the cat sat on the mat the cat ran\<close> the three
  top tokens are \<open>the\<close>, \<open>cat\<close> and, first of the tokens that occur once, \<open>sat\<close>;
  \<open>on\<close> is left out and ranks after \<open>sat\<close>.
\<close>

theorem analyze_word_frequency_ranking_witness:
  "analyze_word_frequency ''the cat sat on the mat the cat ran'' 3 =
     [(''the'', 3), (''cat'', 2), (''sat'', 1)]
   \<and> sorted_wrt (ranks_before (split ''the cat sat on the mat the cat ran''))
       (analyze_word_frequency ''the cat sat on the mat the cat ran'' 3)
   \<and> ''on'' \<in> set (split ''the cat sat on the mat the cat ran'')
   \<and> ranks_before (split ''the cat sat on the mat the cat ran'') (''sat'', 1)
       (''on'', count_list (split ''the cat sat on the mat the cat ran'') ''on'')"
proof -
  have val: "analyze_word_frequency ''the cat sat on the mat the cat ran'' 3 =
      [(''the'', 3), (''cat'', 2), (''sat'', 1)]"
    by code_simp
  have on: "''on'' \<in> set (split ''the cat sat on the mat the cat ran'')"
    by code_simp
  have out: "''on'' \<notin> fst ` set (analyze_word_frequency ''the cat sat on the mat the cat ran'' 3)"
    unfolding val by simp
  have sat: "(''sat'', 1) \<in> set (analyze_word_frequency ''the cat sat on the mat the cat ran'' 3)"
    unfolding val by simp
  show ?thesis
    using analyze_word_frequency_ranking [of "''the cat sat on the mat the cat ran''" 3]
      val on out sat
    by blast
qed

section \<open>The handler of \<open>/word_frequency\<close>\<close>

subsection \<open>The stages of the handler\<close>

lemma attempt_simps [simp]:
  "attempt (Inl e) k = Raise e" "attempt (Inr v) k = k v"
  by (simp_all add: attempt_def)

lemma clean_article_text_Reply:
  assumes "clean_article_text get_text data = Reply r"
  shows "r = Response 404 (Error Article_not_found) \<or> r = Response 500 (Error No_article_details)
         \<or> r = Response 500 (Error No_clean_text)"
  using assms unfolding clean_article_text_def attempt_def
  by (simp split: if_splits sum.splits)

lemma getitem_Inr: "getitem j key = Inr v \<longleftrightarrow> (\<exists>kvs. j = JObj kvs \<and> map_of kvs key = Some v)"
  by (cases j) (auto split: option.splits)

lemma getitem_contains: "getitem j key = Inr v \<Longrightarrow> contains j key = Inr True"
  by (force simp: getitem_Inr dest: map_of_SomeD)

lemma getitem_truthy: "getitem j key = Inr v \<Longrightarrow> truthy j"
  by (auto simp: getitem_Inr)

lemma clean_article_text_Continue:
  "clean_article_text get_text data = Continue t \<longleftrightarrow>
     (\<exists>query pages page_id page article_text.
        getitem data ''query'' = Inr query \<and> getitem query ''pages'' = Inr pages \<and>
        first_key pages = Inr page_id \<and> getitem pages page_id = Inr page \<and>
        contains page ''title'' = Inr True \<and> getitem page ''extract'' = Inr article_text \<and>
        get_text article_text = Inr t \<and> t \<noteq> [])"
  (is "?lhs \<longleftrightarrow> ?rhs")
proof
  assume ?lhs
  then show ?rhs
    unfolding clean_article_text_def attempt_def
    by (simp split: if_splits sum.splits)
next
  assume ?rhs
  then obtain query pages page_id page article_text where
    q: "getitem data ''query'' = Inr query" and p: "getitem query ''pages'' = Inr pages" and
    rest: "first_key pages = Inr page_id" "getitem pages page_id = Inr page"
      "contains page ''title'' = Inr True" "getitem page ''extract'' = Inr article_text"
      "get_text article_text = Inr t" "t \<noteq> []"
    by blast
  show ?lhs
    unfolding clean_article_text_def
    using getitem_truthy [OF q] getitem_contains [OF q] getitem_contains [OF p] q p rest
    by simp
qed

lemma check_params_Inl:
  "check_params req = Inl r \<Longrightarrow> r = Response 400 (Error Params_required) \<or> r = Response 400 (Error Invalid_n)"
  unfolding check_params_def
  by (auto split: option.splits if_splits)

lemma check_params_Inr:
  "check_params req = Inr (topic, n) \<longleftrightarrow>
     arg_topic req = Some topic \<and> topic \<noteq> [] \<and> 0 < n \<and>
     (\<exists>ns. arg_n req = Some ns \<and> ns \<noteq> [] \<and> py_int ns = Some n)"
  unfolding check_params_def
  by (auto split: option.splits if_splits)

lemma history_fetch: "history (snd (fetch_wikipedia_data wiki topic w)) = history w"
  unfolding fetch_wikipedia_data_def
  by (simp add: Let_def split: http_result.splits sum.splits)

lemma word_frequency_cases:
  assumes "word_frequency get_text wiki req w = (out, w')"
  obtains
    (invalid) r where "check_params req = Inl r" "out = Returned r" "w' = w"
  | (fetch_raised) topic n e where "check_params req = Inr (topic, n)"
      "fetch_wikipedia_data wiki topic w = (Inl e, w')" "out = Raised e"
  | (raised) topic n data e where "check_params req = Inr (topic, n)"
      "fetch_wikipedia_data wiki topic w = (Inr data, w')"
      "clean_article_text get_text data = Raise e" "out = Raised e"
  | (reply) topic n data r where "check_params req = Inr (topic, n)"
      "fetch_wikipedia_data wiki topic w = (Inr data, w')"
      "clean_article_text get_text data = Reply r" "out = Returned r"
  | (success) topic n data w1 t where "check_params req = Inr (topic, n)"
      "fetch_wikipedia_data wiki topic w = (Inr data, w1)"
      "clean_article_text get_text data = Continue t"
      "out = Returned (Response 200 (Word_frequency (analyze_word_frequency t n)))"
      "w' = save_search_history topic (analyze_word_frequency t n) w1"
  using assms unfolding word_frequency_def
  by (auto simp: Let_def split: sum.splits prod.splits step.splits)

lemma word_frequency_success:
  assumes "check_params req = Inr (topic, n)"
    and "fetch_wikipedia_data wiki topic w = (Inr data, w1)"
    and "clean_article_text get_text data = Continue t"
  shows "word_frequency get_text wiki req w =
    (Returned (Response 200 (Word_frequency (analyze_word_frequency t n))),
     save_search_history topic (analyze_word_frequency t n) w1)"
  using assms by (simp add: word_frequency_def Let_def)

subsection \<open>Length of the result\<close>

lemma length_analyze_word_frequency:
  "length (analyze_word_frequency t n) = min (nat n) (card (set (split t)))"
  by (simp add: analyze_word_frequency_unfold length_ranking length_Counter min.commute)

lemma keys_analyze_word_frequency_all:
  assumes "card (set (split t)) \<le> nat n"
  shows "fst ` set (analyze_word_frequency t n) = set (split t)"
proof -
  have "length (sorted_by_count_desc (Counter (split t))) \<le> nat n"
    using assms by (simp add: length_ranking length_Counter)
  then have "analyze_word_frequency t n = sorted_by_count_desc (Counter (split t))"
    by (simp add: analyze_word_frequency_unfold)
  then show ?thesis by (simp add: set_ranking keys_Counter_set)
qed

subsection \<open>The table\<close>

text \<open>
  A new row gets a key above every key of the table, so the scan by ascending key
  yields it last: the listing after a save is the listing before, followed by the new
  row.
\<close>

lemma fold_max_ge: "(a::nat) \<le> fold max xs a"
proof (induction xs arbitrary: a)
  case Nil
  show ?case by simp
next
  case (Cons x xs)
  have "max x a \<le> fold max xs (max x a)" by (rule Cons.IH)
  then show ?case by simp
qed

lemma fold_max_upper: "x \<in> set xs \<Longrightarrow> (x::nat) \<le> fold max xs a"
proof (induction xs arbitrary: a)
  case Nil
  then show ?case by simp
next
  case (Cons y ys)
  show ?case
  proof (cases "x = y")
    case True
    have "max y a \<le> fold max ys (max y a)" by (rule fold_max_ge)
    then show ?thesis using True by simp
  next
    case False
    then have "x \<in> set ys" using Cons.prems by simp
    then show ?thesis using Cons.IH by simp
  qed
qed

lemma next_id_fresh: "r \<in> set rows \<Longrightarrow> row_id r < next_id rows"
proof -
  assume "r \<in> set rows"
  then have "row_id r \<in> set (map row_id rows)" by simp
  then have "row_id r \<le> fold max (map row_id rows) 0" by (rule fold_max_upper)
  then show ?thesis by (simp add: next_id_def)
qed

lemma insort_key_last:
  fixes f :: "'a \<Rightarrow> nat"
  assumes "f x < f r"
  shows "insort_key f x (ys @ [r]) = insort_key f x ys @ [r]"
  using assms by (induction ys) auto

lemma sort_key_last:
  fixes f :: "'a \<Rightarrow> nat"
  assumes "\<forall>x\<in>set xs. f x < f r"
  shows "sort_key f (xs @ [r]) = sort_key f xs @ [r]"
  using assms by (induction xs) (auto simp: insort_key_last)

lemma query_all_save:
  "query_all (history (save_search_history topic result w)) =
     query_all (history w) @
       [\<lparr>row_id = next_id (history w), row_topic = topic, row_top_words = top_words_str result\<rparr>]"
  by (simp add: save_search_history_def query_all_def Let_def sort_key_last next_id_fresh)

lemma requested_save: "requested (save_search_history topic result w) = requested w"
  by (simp add: save_search_history_def Let_def)

lemma history_save:
  "history (save_search_history topic result w) =
     history w @
       [\<lparr>row_id = next_id (history w), row_topic = topic, row_top_words = top_words_str result\<rparr>]"
  by (simp add: save_search_history_def Let_def)

lemma search_history_unfold:
  "search_history w =
     (Returned (Response 200 (Search_history
        (map (\<lambda>entry. (row_topic entry, row_top_words entry)) (query_all (history w))))), w)"
  by (simp add: search_history_def Let_def)

lemma listing_commits:
  "map (\<lambda>entry. (row_topic entry, row_top_words entry)) (query_all (history (commits saves w))) =
     map (\<lambda>entry. (row_topic entry, row_top_words entry)) (query_all (history w)) @
     map (\<lambda>(topic, result). (topic, top_words_str result)) saves"
proof (induction saves arbitrary: w)
  case Nil
  show ?case by (simp add: commits_def)
next
  case (Cons s saves)
  obtain topic result where s: "s = (topic, result)" by (cases s)
  have "commits (s # saves) w = commits saves (save_search_history topic result w)"
    by (simp add: commits_def s)
  then show ?case
    by (simp add: Cons.IH query_all_save s)
qed

subsection \<open>Texts of whitespace, and bodies of the shape of the upstream API\<close>

lemma split_from_spaces: "\<forall>c\<in>set t. isspace c \<Longrightarrow> split_from [] t = []"
  by (induction t) auto

lemma analyze_spaces: "\<forall>c\<in>set t. isspace c \<Longrightarrow> analyze_word_frequency t n = []"
  by (simp add: analyze_word_frequency_unfold split_def split_from_spaces Counter_Nil
      sorted_by_count_desc_def)

lemma clean_article_text_api_response:
  assumes "''title'' \<in> fst ` set attrs"
  shows "clean_article_text get_text (api_response page_id (JObj attrs)) =
     (case map_of attrs ''extract'' of
        None \<Rightarrow> Raise KeyError
      | Some article_text \<Rightarrow>
          (case get_text article_text of
             Inl e \<Rightarrow> Raise e
           | Inr clean_text \<Rightarrow>
               if clean_text = [] then Reply (Response 500 (Error No_clean_text))
               else Continue clean_text))"
  using assms
  by (simp add: clean_article_text_def api_response_def split: option.splits sum.splits)

subsection \<open>Every table the handler leaves is a table of saves\<close>

lemma history_commits_snoc:
  "history (commits (saves @ [(topic, result)]) w0) =
     history (commits saves w0) @
       [\<lparr>row_id = next_id (history (commits saves w0)), row_topic = topic,
          row_top_words = top_words_str result\<rparr>]"
  by (simp add: commits_def history_save)

lemma word_frequency_keeps_commits:
  assumes "word_frequency get_text wiki req w = (out, w')"
    and "history w = history (commits saves w0)"
  shows "\<exists>saves'. history w' = history (commits saves' w0)"
  using assms(1)
proof (cases rule: word_frequency_cases)
  case (success topic n data w1 t)
  have "history w1 = history w"
    using history_fetch [of wiki topic w] success(2) by simp
  then have "history w' =
      history (commits (saves @ [(topic, analyze_word_frequency t n)]) w0)"
    by (simp add: success(5) history_save history_commits_snoc assms(2))
  then show ?thesis ..
next
  case (invalid r)
  then show ?thesis using assms(2) by auto
next
  case (fetch_raised topic n e)
  then show ?thesis using assms(2) history_fetch [of wiki topic w] by auto
next
  case (raised topic n data e)
  then show ?thesis using assms(2) history_fetch [of wiki topic w] by auto
next
  case (reply topic n data r)
  then show ?thesis using assms(2) history_fetch [of wiki topic w] by auto
qed

subsection \<open>Successful requests\<close>

lemma word_frequency_200:
  assumes "word_frequency get_text wiki req w = (Returned (Response 200 (Word_frequency freq)), w')"
  obtains topic n data w1 t where "check_params req = Inr (topic, n)"
    and "fetch_wikipedia_data wiki topic w = (Inr data, w1)"
    and "clean_article_text get_text data = Continue t"
    and "freq = analyze_word_frequency t n"
    and "w' = save_search_history topic freq w1"
  using assms
proof (cases rule: word_frequency_cases)
  case (invalid r)
  then show ?thesis using check_params_Inl [of req r] by auto
next
  case (reply topic n data r)
  then show ?thesis using clean_article_text_Reply [of get_text data r] by auto
next
  case (success topic n data w1 t)
  then show ?thesis using that by simp
qed simp_all

text \<open>
  Claim C2. When a request to \<open>/word_frequency\<close> succeeds (the handler answers 200 with
  the list \<open>freq\<close>), then \<open>topic\<close> is present, \<open>n\<close> parses to a positive integer, the
  fetch returned data whose cleaned text is \<open>t\<close>, and the length of \<open>freq\<close> is the
  minimum of \<open>n\<close> and the number of distinct whitespace-delimited tokens of \<open>t\<close>. So the
  length never exceeds \<open>n\<close>, and when fewer than \<open>n\<close> distinct tokens exist the list holds
  all of them.
\<close>

theorem word_frequency_response_length:
  assumes "word_frequency get_text wiki req w = (Returned (Response 200 (Word_frequency freq)), w')"
  shows "\<exists>topic ns n data t.
           arg_topic req = Some topic \<and> arg_n req = Some ns \<and> py_int ns = Some n \<and> 0 < n \<and>
           fst (fetch_wikipedia_data wiki topic w) = Inr data \<and>
           clean_article_text get_text data = Continue t \<and>
           length freq = min (nat n) (card (set (split t))) \<and>
           int (length freq) \<le> n \<and>
           (card (set (split t)) < nat n \<longrightarrow>
              length freq = card (set (split t)) \<and> fst ` set freq = set (split t))"
proof -
  from assms obtain topic n data w1 t where
    params: "check_params req = Inr (topic, n)" and
    fetch: "fetch_wikipedia_data wiki topic w = (Inr data, w1)" and
    clean: "clean_article_text get_text data = Continue t" and
    freq: "freq = analyze_word_frequency t n"
    by (rule word_frequency_200)
  from params obtain ns where
    args: "arg_topic req = Some topic" "arg_n req = Some ns" "py_int ns = Some n" "0 < n"
    by (auto simp: check_params_Inr)
  have len: "length freq = min (nat n) (card (set (split t)))"
    unfolding freq by (rule length_analyze_word_frequency)
  have le: "int (length freq) \<le> n"
    using len args(4) by simp
  have all: "card (set (split t)) < nat n \<longrightarrow>
      length freq = card (set (split t)) \<and> fst ` set freq = set (split t)"
    using len keys_analyze_word_frequency_all [of t n] by (simp add: freq)
  show ?thesis
    using args fetch clean len le all by force
qed

text \<open>
  With \<open>n = 5\<close> on a text of six distinct tokens the response has five items.
\<close>

theorem word_frequency_response_length_witness:
  "word_frequency plain_text cat_wiki \<lparr>arg_topic = Some ''Cat'', arg_n = Some ''5''\<rparr> empty_world
     = (Returned (Response 200 (Word_frequency
          [(''the'', 3), (''cat'', 2), (''sat'', 1), (''on'', 1), (''mat'', 1)])),
        \<lparr>history = [\<lparr>row_id = 1, row_topic = ''Cat'',
                      row_top_words = ''the: 3, cat: 2, sat: 1, on: 1, mat: 1''\<rparr>],
         requested =
           [''https://en.wikipedia.org/w/api.php?action=query&format=json&titles=Cat'',
            ''https://en.wikipedia.org/w/api.php?action=query&format=json&pageids=6678&prop=extracts'']\<rparr>)
   \<and> (\<exists>n t. py_int ''5'' = Some n \<and>
         length [(''the'', 3::nat), (''cat'', 2), (''sat'', 1), (''on'', 1), (''mat'', 1)]
           = min (nat n) (card (set (split t))))"
proof -
  have run: "word_frequency plain_text cat_wiki \<lparr>arg_topic = Some ''Cat'', arg_n = Some ''5''\<rparr>
      empty_world
     = (Returned (Response 200 (Word_frequency
          [(''the'', 3), (''cat'', 2), (''sat'', 1), (''on'', 1), (''mat'', 1)])),
        \<lparr>history = [\<lparr>row_id = 1, row_topic = ''Cat'',
                      row_top_words = ''the: 3, cat: 2, sat: 1, on: 1, mat: 1''\<rparr>],
         requested =
           [''https://en.wikipedia.org/w/api.php?action=query&format=json&titles=Cat'',
            ''https://en.wikipedia.org/w/api.php?action=query&format=json&pageids=6678&prop=extracts'']\<rparr>)"
    by code_simp
  show ?thesis
    using word_frequency_response_length [OF run] run by auto
qed

subsection \<open>Persistence\<close>

lemma clean_article_text_succeeds:
  "(\<exists>t. clean_article_text get_text data = Continue t) \<longleftrightarrow>
     (\<exists>query pages page_id page article_text clean_text.
        getitem data ''query'' = Inr query \<and> getitem query ''pages'' = Inr pages \<and>
        first_key pages = Inr page_id \<and> getitem pages page_id = Inr page \<and>
        contains page ''title'' = Inr True \<and> getitem page ''extract'' = Inr article_text \<and>
        get_text article_text = Inr clean_text \<and> clean_text \<noteq> [])"
  unfolding clean_article_text_Continue by blast

lemma history_entry_cases:
  assumes "word_frequency get_text wiki req w = (out, w')"
  shows "((\<exists>row. history w' = history w @ [row]) \<longleftrightarrow>
            (\<exists>freq. out = Returned (Response 200 (Word_frequency freq))))
       \<and> ((\<exists>freq. out = Returned (Response 200 (Word_frequency freq))) \<longleftrightarrow>
            (\<exists>topic n data. check_params req = Inr (topic, n) \<and>
               fst (fetch_wikipedia_data wiki topic w) = Inr data \<and>
               (\<exists>t. clean_article_text get_text data = Continue t)))
       \<and> ((\<forall>freq. out \<noteq> Returned (Response 200 (Word_frequency freq))) \<longrightarrow> history w' = history w)
       \<and> (\<forall>st e. out = Returned (Response st (Error e)) \<longrightarrow>
            st \<in> {400, 404, 500} \<and> history w' = history w)"
  using assms
proof (cases rule: word_frequency_cases)
  case (invalid r)
  then show ?thesis using check_params_Inl [of req r] by auto
next
  case (fetch_raised topic n e)
  have "history w' = history w"
    using history_fetch [of wiki topic w] fetch_raised(2) by simp
  then show ?thesis using fetch_raised by auto
next
  case (raised topic n data e)
  have "history w' = history w"
    using history_fetch [of wiki topic w] raised(2) by simp
  then show ?thesis using raised by auto
next
  case (reply topic n data r)
  have "history w' = history w"
    using history_fetch [of wiki topic w] reply(2) by simp
  then show ?thesis using reply clean_article_text_Reply [of get_text data r] by auto
next
  case (success topic n data w1 t)
  have "history w1 = history w"
    using history_fetch [of wiki topic w] success(2) by simp
  then have "\<exists>row. history w' = history w @ [row]"
    by (simp add: success(5) history_save)
  then show ?thesis using success by force
qed

text \<open>
  Claim C3. For every request to \<open>/word_frequency\<close>: the table gains a row exactly when
  the handler answers 200 with a frequency list; that happens exactly when the
  parameters are valid, the fetch returned data with a page under \<open>query\<close>, \<open>pages\<close>,
  the page has a title and an extract, and the cleaned text is not empty; in every
  other case the table is unchanged, in particular for every error response, whose
  status is 400, 404 or 500.
\<close>

theorem history_entry_iff_success:
  assumes "word_frequency get_text wiki req w = (out, w')"
  shows "((\<exists>row. history w' = history w @ [row]) \<longleftrightarrow>
            (\<exists>freq. out = Returned (Response 200 (Word_frequency freq))))
       \<and> ((\<exists>freq. out = Returned (Response 200 (Word_frequency freq))) \<longleftrightarrow>
            (\<exists>topic n data. check_params req = Inr (topic, n) \<and>
               fst (fetch_wikipedia_data wiki topic w) = Inr data \<and>
               (\<exists>query pages page_id page article_text clean_text.
                  getitem data ''query'' = Inr query \<and> getitem query ''pages'' = Inr pages \<and>
                  first_key pages = Inr page_id \<and> getitem pages page_id = Inr page \<and>
                  contains page ''title'' = Inr True \<and>
                  getitem page ''extract'' = Inr article_text \<and>
                  get_text article_text = Inr clean_text \<and> clean_text \<noteq> [])))
       \<and> ((\<forall>freq. out \<noteq> Returned (Response 200 (Word_frequency freq))) \<longrightarrow> history w' = history w)
       \<and> (\<forall>st e. out = Returned (Response st (Error e)) \<longrightarrow>
            st \<in> {400, 404, 500} \<and> history w' = history w)"
  using history_entry_cases [OF assms] unfolding clean_article_text_succeeds .

text \<open>
  A successful request adds a row to the empty table; a request whose fetch fails is
  answered 404 and leaves the table empty.
\<close>

theorem history_entry_iff_success_witness:
  "(\<exists>row. history (snd (word_frequency plain_text cat_wiki
        \<lparr>arg_topic = Some ''Cat'', arg_n = Some ''3''\<rparr> empty_world)) = history empty_world @ [row])
   \<and> fst (word_frequency plain_text down_wiki
        \<lparr>arg_topic = Some ''Cat'', arg_n = Some ''3''\<rparr> empty_world)
       = Returned (Response 404 (Error Article_not_found))
   \<and> history (snd (word_frequency plain_text down_wiki
        \<lparr>arg_topic = Some ''Cat'', arg_n = Some ''3''\<rparr> empty_world)) = history empty_world"
proof -
  have good: "word_frequency plain_text cat_wiki \<lparr>arg_topic = Some ''Cat'', arg_n = Some ''3''\<rparr>
      empty_world
     = (Returned (Response 200 (Word_frequency [(''the'', 3), (''cat'', 2), (''sat'', 1)])),
        \<lparr>history = [\<lparr>row_id = 1, row_topic = ''Cat'',
                      row_top_words = ''the: 3, cat: 2, sat: 1''\<rparr>],
         requested =
           [''https://en.wikipedia.org/w/api.php?action=query&format=json&titles=Cat'',
            ''https://en.wikipedia.org/w/api.php?action=query&format=json&pageids=6678&prop=extracts'']\<rparr>)"
    by code_simp
  have bad: "word_frequency plain_text down_wiki \<lparr>arg_topic = Some ''Cat'', arg_n = Some ''3''\<rparr>
      empty_world
     = (Returned (Response 404 (Error Article_not_found)),
        \<lparr>history = [],
         requested =
           [''https://en.wikipedia.org/w/api.php?action=query&format=json&titles=Cat'']\<rparr>)"
    by code_simp
  have "\<exists>row. history \<lparr>history = [\<lparr>row_id = 1, row_topic = ''Cat'',
                      row_top_words = ''the: 3, cat: 2, sat: 1''\<rparr>],
         requested =
           [''https://en.wikipedia.org/w/api.php?action=query&format=json&titles=Cat'',
            ''https://en.wikipedia.org/w/api.php?action=query&format=json&pageids=6678&prop=extracts'']\<rparr>
       = history empty_world @ [row]"
    using history_entry_iff_success [OF good] by blast
  moreover have "history \<lparr>history = [],
         requested =
           [''https://en.wikipedia.org/w/api.php?action=query&format=json&titles=Cat'']\<rparr>
       = history empty_world"
    using history_entry_iff_success [OF bad] by blast
  ultimately show ?thesis
    unfolding good bad by simp
qed

text \<open>
  Claim C4 says that a request for an unknown topic, where the upstream lookup returns
  no matching page, is answered 404 with an error body and creates no history entry.
  The handler answers 404 only when the fetch returns \<open>None\<close> or a body without \<open>query\<close>
  or \<open>pages\<close> (line 102). For a title that has no page the upstream answers with a
  \<open>pages\<close> object holding a stub marked \<open>missing\<close>: the check of line 102 passes, the stub
  of the second answer has no title, and the handler answers 500 (line 108). No history
  entry is created.
\<close>

theorem unknown_topic_answers_500:
  "word_frequency plain_text missing_page_wiki
      \<lparr>arg_topic = Some ''Zzyzxq'', arg_n = Some ''3''\<rparr> empty_world
     = (Returned (Response 500 (Error No_article_details)),
        \<lparr>history = [],
         requested =
           [''https://en.wikipedia.org/w/api.php?action=query&format=json&titles=Zzyzxq'',
            ''https://en.wikipedia.org/w/api.php?action=query&format=json&pageids=-1&prop=extracts'']\<rparr>)"
  by code_simp

text \<open>
  Claim C5. After a successful call of \<open>/word_frequency\<close> with response list \<open>freq\<close>, the
  listing of \<open>/search_history\<close> is the listing before the call followed by exactly one
  entry: its topic is the \<open>topic\<close> parameter of the request, and its \<open>top_words\<close> is the
  items of \<open>freq\<close>, each rendered as \<open>word: count\<close>, joined by a comma and a space in the
  order of \<open>freq\<close>.
\<close>

theorem history_round_trip:
  assumes "word_frequency get_text wiki req w = (Returned (Response 200 (Word_frequency freq)), w')"
  shows "\<exists>topic listing.
           arg_topic req = Some topic \<and>
           fst (search_history w) = Returned (Response 200 (Search_history listing)) \<and>
           fst (search_history w') = Returned (Response 200 (Search_history
             (listing @
               [(topic, join '', '' (map (\<lambda>(word, count). word @ '': '' @ str count) freq))])))"
proof -
  from assms obtain topic n data w1 t where
    params: "check_params req = Inr (topic, n)" and
    fetch: "fetch_wikipedia_data wiki topic w = (Inr data, w1)" and
    clean: "clean_article_text get_text data = Continue t" and
    saved: "w' = save_search_history topic freq w1"
    by (rule word_frequency_200)
  have topic: "arg_topic req = Some topic"
    using params by (simp add: check_params_Inr)
  have same: "history w1 = history w"
    using history_fetch [of wiki topic w] fetch by simp
  have "query_all (history w') = query_all (history w) @
      [\<lparr>row_id = next_id (history w), row_topic = topic, row_top_words = top_words_str freq\<rparr>]"
    unfolding saved query_all_save same ..
  then have "fst (search_history w') = Returned (Response 200 (Search_history
      (map (\<lambda>entry. (row_topic entry, row_top_words entry)) (query_all (history w)) @
        [(topic, top_words_str freq)])))"
    by (simp add: search_history_unfold)
  then show ?thesis
    using topic by (simp add: search_history_unfold top_words_str_def)
qed

text \<open>
  On the empty table the successful request for \<open>Cat\<close> with \<open>n = 3\<close> leaves the single
  entry \<open>the: 3, cat: 2, sat: 1\<close>.
\<close>

theorem history_round_trip_witness:
  "fst (search_history empty_world) = Returned (Response 200 (Search_history []))
   \<and> fst (search_history (snd (word_frequency plain_text cat_wiki
        \<lparr>arg_topic = Some ''Cat'', arg_n = Some ''3''\<rparr> empty_world)))
     = Returned (Response 200 (Search_history [(''Cat'', ''the: 3, cat: 2, sat: 1'')]))"
proof -
  have good: "word_frequency plain_text cat_wiki \<lparr>arg_topic = Some ''Cat'', arg_n = Some ''3''\<rparr>
      empty_world
     = (Returned (Response 200 (Word_frequency [(''the'', 3), (''cat'', 2), (''sat'', 1)])),
        snd (word_frequency plain_text cat_wiki \<lparr>arg_topic = Some ''Cat'', arg_n = Some ''3''\<rparr>
          empty_world))"
    by code_simp
  have empty: "fst (search_history empty_world) = Returned (Response 200 (Search_history []))"
    by code_simp
  have digits: "str 3 = ''3''" "str 2 = ''2''" "str (Suc 0) = ''1''"
    by (simp_all add: str.simps digit_char_def)
  show ?thesis
    using history_round_trip [OF good] empty by (simp add: digits)
qed

subsection \<open>Validation\<close>

text \<open>
  Claim C6. When \<open>topic\<close> is missing (absent or empty), or \<open>n\<close> is missing, or \<open>n\<close> does not
  parse as an integer, or parses to zero or a negative integer, the handler answers 400
  and returns the state as it was: no URL was requested from the upstream and no row
  was added.
\<close>

theorem invalid_parameters_400:
  assumes "arg_topic req = None \<or> arg_topic req = Some [] \<or> arg_n req = None \<or>
     (\<exists>ns. arg_n req = Some ns \<and> (py_int ns = None \<or> (\<exists>k. py_int ns = Some k \<and> k \<le> 0)))"
  shows "\<exists>e. word_frequency get_text wiki req w = (Returned (Response 400 (Error e)), w)"
proof -
  have "\<exists>e. check_params req = Inl (Response 400 (Error e))"
    using assms unfolding check_params_def
    by (auto split: option.splits)
  then show ?thesis
    by (auto simp: word_frequency_def)
qed

text \<open>
  The cases of the claim: no \<open>topic\<close>, no \<open>n\<close>, and \<open>n\<close> one of \<open>abc\<close>, \<open>0\<close> and \<open>-2\<close>.
\<close>

theorem invalid_parameters_400_witness:
  "(\<exists>e. word_frequency plain_text cat_wiki \<lparr>arg_topic = None, arg_n = Some ''3''\<rparr> empty_world
        = (Returned (Response 400 (Error e)), empty_world))
   \<and> (\<exists>e. word_frequency plain_text cat_wiki \<lparr>arg_topic = Some ''Cat'', arg_n = None\<rparr> empty_world
        = (Returned (Response 400 (Error e)), empty_world))
   \<and> py_int ''abc'' = None
   \<and> (\<exists>e. word_frequency plain_text cat_wiki \<lparr>arg_topic = Some ''Cat'', arg_n = Some ''abc''\<rparr>
          empty_world = (Returned (Response 400 (Error e)), empty_world))
   \<and> py_int ''0'' = Some 0
   \<and> (\<exists>e. word_frequency plain_text cat_wiki \<lparr>arg_topic = Some ''Cat'', arg_n = Some ''0''\<rparr>
          empty_world = (Returned (Response 400 (Error e)), empty_world))
   \<and> py_int ''-2'' = Some (- 2)
   \<and> (\<exists>e. word_frequency plain_text cat_wiki \<lparr>arg_topic = Some ''Cat'', arg_n = Some ''-2''\<rparr>
          empty_world = (Returned (Response 400 (Error e)), empty_world))"
proof -
  have abc: "py_int ''abc'' = None" by code_simp
  have zero: "py_int ''0'' = Some 0" by code_simp
  have neg: "py_int ''-2'' = Some (- 2)" by code_simp
  show ?thesis
    using invalid_parameters_400 [of "\<lparr>arg_topic = None, arg_n = Some ''3''\<rparr>" plain_text cat_wiki empty_world]
      invalid_parameters_400 [of "\<lparr>arg_topic = Some ''Cat'', arg_n = None\<rparr>" plain_text cat_wiki empty_world]
      invalid_parameters_400 [of "\<lparr>arg_topic = Some ''Cat'', arg_n = Some ''abc''\<rparr>" plain_text cat_wiki empty_world]
      invalid_parameters_400 [of "\<lparr>arg_topic = Some ''Cat'', arg_n = Some ''0''\<rparr>" plain_text cat_wiki empty_world]
      invalid_parameters_400 [of "\<lparr>arg_topic = Some ''Cat'', arg_n = Some ''-2''\<rparr>" plain_text cat_wiki empty_world]
      abc zero neg
    by simp
qed

section \<open>The handler of \<open>/search_history\<close>\<close>

text \<open>
  Claim C7. On the table that any sequence of saves leaves, \<open>/search_history\<close> answers
  200 with one entry per save, rendered as its topic and its \<open>top_words\<close>, in the order
  of the saves.
\<close>

theorem search_history_lists_commits:
  "search_history (commits saves \<lparr>history = [], requested = urls\<rparr>) =
     (Returned (Response 200 (Search_history
        (map (\<lambda>(topic, result). (topic, top_words_str result)) saves))),
      commits saves \<lparr>history = [], requested = urls\<rparr>)"
  using listing_commits [of saves "\<lparr>history = [], requested = urls\<rparr>"]
  by (simp add: search_history_unfold query_all_def)

text \<open>Two saves are listed in the order they were made.\<close>

theorem search_history_lists_commits_witness:
  "search_history (commits [(''Cat'', [(''the'', 3), (''cat'', 2)]), (''Dog'', [(''dog'', 12)])]
       \<lparr>history = [], requested = []\<rparr>) =
     (Returned (Response 200 (Search_history [(''Cat'', ''the: 3, cat: 2''), (''Dog'', ''dog: 12'')])),
      \<lparr>history = [\<lparr>row_id = 1, row_topic = ''Cat'', row_top_words = ''the: 3, cat: 2''\<rparr>,
                   \<lparr>row_id = 2, row_topic = ''Dog'', row_top_words = ''dog: 12''\<rparr>],
        requested = []\<rparr>)"
proof -
  have table: "commits [(''Cat'', [(''the'', 3), (''cat'', 2)]), (''Dog'', [(''dog'', 12)])]
       \<lparr>history = [], requested = []\<rparr> =
      \<lparr>history = [\<lparr>row_id = 1, row_topic = ''Cat'', row_top_words = ''the: 3, cat: 2''\<rparr>,
                   \<lparr>row_id = 2, row_topic = ''Dog'', row_top_words = ''dog: 12''\<rparr>],
        requested = []\<rparr>"
    by code_simp
  have rendered: "map (\<lambda>(topic, result). (topic, top_words_str result))
        [(''Cat'', [(''the'', 3), (''cat'', 2)]), (''Dog'', [(''dog'', 12)])] =
      [(''Cat'', ''the: 3, cat: 2''), (''Dog'', ''dog: 12'')]"
    by code_simp
  show ?thesis
    using search_history_lists_commits
      [of "[(''Cat'', [(''the'', 3), (''cat'', 2)]), (''Dog'', [(''dog'', 12)])]" "[]"]
    unfolding table rendered .
qed

text \<open>
  Claim C8. A request to \<open>/search_history\<close> leaves the state unchanged, and a second
  request with no write in between returns the same listing.
\<close>

theorem search_history_read_only:
  "snd (search_history w) = w \<and>
   fst (search_history (snd (search_history w))) = fst (search_history w)"
  by (simp add: search_history_unfold)

section \<open>Inputs outside the documented error cases\<close>

text \<open>
  Claim C9. When the page has a title and the cleaned text of its extract is not empty
  but consists of whitespace only, the emptiness check of line 116 passes: the handler
  answers 200 with the empty list and saves a row whose \<open>top_words\<close> is the empty string.
\<close>

theorem whitespace_only_text_accepted:
  assumes "check_params req = Inr (topic, n)"
    and "fetch_wikipedia_data wiki topic w = (Inr (api_response page_id (JObj attrs)), w1)"
    and "''title'' \<in> fst ` set attrs"
    and "map_of attrs ''extract'' = Some article_text"
    and "get_text article_text = Inr clean_text"
    and "clean_text \<noteq> []"
    and "\<forall>c\<in>set clean_text. isspace c"
  shows "word_frequency get_text wiki req w =
     (Returned (Response 200 (Word_frequency [])),
      w1\<lparr>history := history w @
            [\<lparr>row_id = next_id (history w), row_topic = topic, row_top_words = []\<rparr>]\<rparr>)"
proof -
  have clean: "clean_article_text get_text (api_response page_id (JObj attrs)) = Continue clean_text"
    using assms(3-6) by (simp add: clean_article_text_api_response)
  have same: "history w1 = history w"
    using history_fetch [of wiki topic w] assms(2) by simp
  have "word_frequency get_text wiki req w =
      (Returned (Response 200 (Word_frequency (analyze_word_frequency clean_text n))),
       save_search_history topic (analyze_word_frequency clean_text n) w1)"
    using assms(1,2) clean by (rule word_frequency_success)
  then show ?thesis
    using assms(7) same
    by (simp add: analyze_spaces save_search_history_def top_words_str_def Let_def)
qed

text \<open>Such an article: the extract is a single space.\<close>

theorem whitespace_only_text_accepted_witness:
  "plain_text (JStr '' '') = Inr '' '' \<and> '' '' \<noteq> [] \<and> isspace (CHR '' '')
   \<and> word_frequency plain_text blank_wiki \<lparr>arg_topic = Some ''Blank'', arg_n = Some ''3''\<rparr>
        empty_world
     = (Returned (Response 200 (Word_frequency [])),
        \<lparr>history = [\<lparr>row_id = 1, row_topic = ''Blank'', row_top_words = []\<rparr>],
         requested =
           [''https://en.wikipedia.org/w/api.php?action=query&format=json&titles=Blank'',
            ''https://en.wikipedia.org/w/api.php?action=query&format=json&pageids=7&prop=extracts'']\<rparr>)"
proof -
  have params: "check_params \<lparr>arg_topic = Some ''Blank'', arg_n = Some ''3''\<rparr> = Inr (''Blank'', 3)"
    by code_simp
  have fetch: "fetch_wikipedia_data blank_wiki ''Blank'' empty_world =
      (Inr (api_response ''7'' (JObj [(''pageid'', JInt 7), (''ns'', JInt 0),
              (''title'', JStr ''Blank''), (''extract'', JStr '' '')])),
       \<lparr>history = [], requested =
           [''https://en.wikipedia.org/w/api.php?action=query&format=json&titles=Blank'',
            ''https://en.wikipedia.org/w/api.php?action=query&format=json&pageids=7&prop=extracts'']\<rparr>)"
    by code_simp
  have title: "''title'' \<in> fst ` set [(''pageid'', JInt 7), (''ns'', JInt 0),
              (''title'', JStr ''Blank''), (''extract'', JStr '' '')]"
    by simp
  have has_extract: "map_of [(''pageid'', JInt 7), (''ns'', JInt 0),
              (''title'', JStr ''Blank''), (''extract'', JStr '' '')] ''extract'' = Some (JStr '' '')"
    by simp
  have clean: "plain_text (JStr '' '') = Inr '' ''"
    by (simp add: plain_text_def)
  have nonempty: "'' '' \<noteq> []" by simp
  have blank: "\<forall>c\<in>set '' ''. isspace c"
    by (simp add: isspace_def)
  have one: "next_id (history empty_world) = 1"
    by (simp add: next_id_def empty_world_def)
  show ?thesis
    using whitespace_only_text_accepted
        [where get_text = plain_text and article_text = "JStr '' ''" and clean_text = "'' ''",
          OF params fetch title has_extract clean nonempty blank]
      clean blank one
    by (simp add: empty_world_def)
qed

text \<open>
  Claim C10. When the page of a well-formed body has the key \<open>title\<close> but no key
  \<open>extract\<close>, the subscript of line 111 raises \<open>KeyError\<close>, which nothing catches: the
  handler returns none of its 400, 404 or 500 responses, and the table is unchanged.
\<close>

theorem missing_extract_raises_KeyError:
  assumes "check_params req = Inr (topic, n)"
    and "fetch_wikipedia_data wiki topic w = (Inr (api_response page_id (JObj attrs)), w1)"
    and "''title'' \<in> fst ` set attrs"
    and "''extract'' \<notin> fst ` set attrs"
  shows "word_frequency get_text wiki req w = (Raised KeyError, w1) \<and> history w1 = history w"
proof -
  have "map_of attrs ''extract'' = None"
    using assms(4) by (simp add: map_of_eq_None_iff)
  then have "clean_article_text get_text (api_response page_id (JObj attrs)) = Raise KeyError"
    using assms(3) by (simp add: clean_article_text_api_response)
  moreover have "history w1 = history w"
    using history_fetch [of wiki topic w] assms(2) by simp
  ultimately show ?thesis
    using assms(1,2) by (simp add: word_frequency_def)
qed

text \<open>Such a body: the page holds \<open>pageid\<close>, \<open>ns\<close> and \<open>title\<close> only.\<close>

theorem missing_extract_raises_KeyError_witness:
  "word_frequency plain_text title_only_wiki \<lparr>arg_topic = Some ''Cat'', arg_n = Some ''3''\<rparr>
        empty_world
     = (Raised KeyError,
        \<lparr>history = [], requested =
           [''https://en.wikipedia.org/w/api.php?action=query&format=json&titles=Cat'',
            ''https://en.wikipedia.org/w/api.php?action=query&format=json&pageids=7&prop=extracts'']\<rparr>)"
proof -
  have params: "check_params \<lparr>arg_topic = Some ''Cat'', arg_n = Some ''3''\<rparr> = Inr (''Cat'', 3)"
    by code_simp
  have fetch: "fetch_wikipedia_data title_only_wiki ''Cat'' empty_world =
      (Inr (api_response ''7'' (JObj [(''pageid'', JInt 7), (''ns'', JInt 0),
              (''title'', JStr ''Cat'')])),
       \<lparr>history = [], requested =
           [''https://en.wikipedia.org/w/api.php?action=query&format=json&titles=Cat'',
            ''https://en.wikipedia.org/w/api.php?action=query&format=json&pageids=7&prop=extracts'']\<rparr>)"
    by code_simp
  have title: "''title'' \<in> fst ` set [(''pageid'', JInt 7), (''ns'', JInt 0),
              (''title'', JStr ''Cat'')]"
    by simp
  have no_extract: "''extract'' \<notin> fst ` set [(''pageid'', JInt 7), (''ns'', JInt 0),
              (''title'', JStr ''Cat'')]"
    by simp
  show ?thesis
    using missing_extract_raises_KeyError [OF params fetch title no_extract] by simp
qed

end
